theory Spec2Isabelle
  imports Main "HOL-Library.Sublist"
begin

section \<open>Python values\<close>

text \<open>
  A Python \<open>str\<close> is a sequence of Unicode code points, so it is modelled as a list of
  natural numbers; \<open>str\<close> turns an ASCII literal of the source into that form.
\<close>

type_synonym pystr = "nat list"

definition str :: "string \<Rightarrow> pystr" where
  "str s = map of_char s"

text \<open>
  The value \<open>json.load\<close> returns: \<open>None\<close>, a bool, a number, a string, a list or a dict.
  A dict keeps its insertion order, so it is an association list (its keys are distinct in
  every value Python builds). Numbers are integers: the flags and counts of a provider
  schema are.
\<close>

datatype json =
    JNull
  | JBool bool
  | JInt int
  | JStr pystr
  | JArr "json list"
  | JObj "(pystr \<times> json) list"

datatype py_error =
    ValueError pystr
  | KeyError pystr
  | AttributeError
  | TypeError
  | FileNotFoundError pystr
  | FileExistsError pystr
  | IsADirectoryError pystr
  | UnicodeEncodeError

text \<open>Python's truth value of an object (\<open>if not x\<close>).\<close>

fun truthy :: "json \<Rightarrow> bool" where
  "truthy JNull = False"
| "truthy (JBool b) = b"
| "truthy (JInt i) = (i \<noteq> 0)"
| "truthy (JStr s) = (s \<noteq> [])"
| "truthy (JArr xs) = (xs \<noteq> [])"
| "truthy (JObj kvs) = (kvs \<noteq> [])"

text \<open>\<open>d.get(k, default)\<close>: only a dict has the method.\<close>

fun py_get :: "json \<Rightarrow> pystr \<Rightarrow> json \<Rightarrow> py_error + json" where
  "py_get (JObj kvs) k d = (case map_of kvs k of Some v \<Rightarrow> Inr v | None \<Rightarrow> Inr d)"
| "py_get _ k d = Inl AttributeError"

text \<open>\<open>d.items()\<close>: only a dict has the method.\<close>

fun py_items :: "json \<Rightarrow> py_error + (pystr \<times> json) list" where
  "py_items (JObj kvs) = Inr kvs"
| "py_items _ = Inl AttributeError"

text \<open>\<open>d[k]\<close> with a string key: a missing key raises, as does any value that is no dict.\<close>

fun py_index :: "json \<Rightarrow> pystr \<Rightarrow> py_error + json" where
  "py_index (JObj kvs) k = (case map_of kvs k of Some v \<Rightarrow> Inr v | None \<Rightarrow> Inl (KeyError k))"
| "py_index _ k = Inl TypeError"

section \<open>The schema extractor (2_extract_schema_and_wiki.py)\<close>

text \<open>
  What \<open>parse_block\<close> builds: \<open>{"name": ..., "required": ...}\<close> for an attribute, and
  \<open>{"name": ..., "min_items": ..., "attributes": [...], "blocks": [...]}\<close> for a nested
  block. The values of \<open>required\<close> and \<open>min_items\<close> are copied from the document as they
  are.
\<close>

datatype attribute = Attribute (attr_name: pystr) (attr_required: json)

datatype block_node =
  BlockNode (block_name: pystr) (min_items: json)
            (attributes: "attribute list") (blocks: "block_node list")

text \<open>The first loop of \<open>parse_block\<close>, over \<open>block.get("attributes", {}).items()\<close>.\<close>

fun attributes_loop :: "(pystr \<times> json) list \<Rightarrow> attribute list \<Rightarrow> py_error + attribute list" where
  "attributes_loop [] acc = Inr acc"
| "attributes_loop ((name, attr) # rest) acc =
     (case py_get attr (str ''required'') (JBool False) of
        Inl e \<Rightarrow> Inl e
      | Inr is_required \<Rightarrow>
          (case py_get attr (str ''computed'') (JBool False) of
             Inl e \<Rightarrow> Inl e
           | Inr is_computed \<Rightarrow>
               if \<not> truthy is_required \<and> truthy is_computed
               then attributes_loop rest acc
               else attributes_loop rest (acc @ [Attribute name is_required])))"

lemma map_of_size:
  "map_of kvs k = Some v \<Longrightarrow> size v < size (JObj kvs)"
  by (induction kvs) (auto split: if_splits)

lemma py_get_size:
  "py_get b k (JObj []) = Inr v \<Longrightarrow> size v \<le> size b"
  by (cases b) (auto split: option.splits dest: map_of_size less_imp_le)

lemma py_index_size:
  "py_index b k = Inr v \<Longrightarrow> size v < size b"
  by (cases b) (auto split: option.splits dest: map_of_size)

lemma py_items_size:
  "py_items b = Inr kvs \<Longrightarrow> size (JObj kvs) = size b"
  by (cases b) auto

text \<open>
  \<open>parse_block\<close> and its second loop, over \<open>block.get("block_types", {}).items()\<close>, which
  calls \<open>parse_block\<close> on each nested block. The result is the pair of the dict's two
  entries, \<open>attributes\<close> and \<open>blocks\<close>.
\<close>

function parse_block :: "json \<Rightarrow> py_error + (attribute list \<times> block_node list)"
  and blocks_loop :: "(pystr \<times> json) list \<Rightarrow> block_node list \<Rightarrow> py_error + block_node list"
where
  "parse_block block =
     (case py_get block (str ''attributes'') (JObj []) of
        Inl e \<Rightarrow> Inl e
      | Inr a \<Rightarrow>
     (case py_items a of
        Inl e \<Rightarrow> Inl e
      | Inr attr_items \<Rightarrow>
     (case attributes_loop attr_items [] of
        Inl e \<Rightarrow> Inl e
      | Inr attrs \<Rightarrow>
     (case py_get block (str ''block_types'') (JObj []) of
        Inl e \<Rightarrow> Inl e
      | Inr b \<Rightarrow>
     (case py_items b of
        Inl e \<Rightarrow> Inl e
      | Inr block_items \<Rightarrow>
     (case blocks_loop block_items [] of
        Inl e \<Rightarrow> Inl e
      | Inr blks \<Rightarrow> Inr (attrs, blks)))))))"
| "blocks_loop [] acc = Inr acc"
| "blocks_loop ((name, block_info) # rest) acc =
     (case py_index block_info (str ''block'') of
        Inl e \<Rightarrow> Inl e
      | Inr sub \<Rightarrow>
     (case parse_block sub of
        Inl e \<Rightarrow> Inl e
      | Inr sub_block \<Rightarrow>
     (case py_get block_info (str ''min_items'') (JInt 0) of
        Inl e \<Rightarrow> Inl e
      | Inr m \<Rightarrow>
          blocks_loop rest (acc @ [BlockNode name m (fst sub_block) (snd sub_block)]))))"
  by pat_completeness auto
termination
proof (relation "measure (\<lambda>x. case x of
                    Inl b \<Rightarrow> 2 * size b + 1
                  | Inr (kvs, acc) \<Rightarrow> 2 * size (JObj kvs))", goal_cases)
  case 1
  show ?case by simp
next
  case (2 block a attr_items attrs b block_items)
  from py_get_size [OF 2(4)] py_items_size [OF 2(5)]
  show ?case by simp
next
  case (3 name block_info rest acc sub)
  from py_index_size [OF 3(1)]
  show ?case by simp
next
  case (4 name block_info rest acc sub sub_block m)
  show ?case by simp
qed

declare parse_block.simps [simp del]

subsection \<open>Files\<close>

text \<open>
  The part of the file system the scripts touch: the directories that exist and the
  regular files with what they hold. For this script a file holds the value that
  \<open>json.load\<close> reads from it or \<open>json.dump\<close> is given; for the generator script it holds
  the text written. Permissions, missing parent directories and device errors are outside
  the model.
\<close>

record 'a filesystem =
  dirs :: "pystr set"
  files :: "pystr \<rightharpoonup> 'a"

text \<open>\<open>open(path, "r")\<close> followed by reading the whole file.\<close>

definition open_read :: "'a filesystem \<Rightarrow> pystr \<Rightarrow> py_error + 'a" where
  "open_read fs path =
     (if path \<in> dirs fs then Inl (IsADirectoryError path)
      else case files fs path of
             None \<Rightarrow> Inl (FileNotFoundError path)
           | Some c \<Rightarrow> Inr c)"

text \<open>\<open>os.makedirs(path, exist_ok=True)\<close>: a regular file of that name is an error.\<close>

definition makedirs :: "pystr \<Rightarrow> 'a filesystem \<Rightarrow> py_error + 'a filesystem" where
  "makedirs path fs =
     (if files fs path \<noteq> None then Inl (FileExistsError path)
      else Inr (fs\<lparr>dirs := insert path (dirs fs)\<rparr>))"

text \<open>\<open>os.path.join(a, b)\<close> of \<open>posixpath\<close>.\<close>

definition path_join :: "pystr \<Rightarrow> pystr \<Rightarrow> pystr" where
  "path_join a b =
     (if take 1 b = str ''/'' then b
      else if a = [] \<or> (a \<noteq> [] \<and> last a = 47) then a @ b
      else a @ str ''/'' @ b)"

subsection \<open>extract_full_block_tree\<close>

text \<open>The message of the \<open>ValueError\<close>; it starts with U+274C.\<close>

definition not_found_message :: "pystr \<Rightarrow> pystr" where
  "not_found_message resource_type =
     [0x274C] @ str '' Resource type '' @ [39] @ resource_type @ [39] @ str '' not found in schema.''"

text \<open>
  The assignment to \<open>resources\<close>: three chained \<open>get\<close> calls, each with the default \<open>{}\<close>.
  \<open>provider_supplier\<close> is the module's global, set from the command line.
\<close>

definition resource_catalog :: "json \<Rightarrow> pystr \<Rightarrow> pystr \<Rightarrow> py_error + json" where
  "resource_catalog schema provider_supplier provider_name =
     (case py_get schema (str ''provider_schemas'') (JObj []) of
        Inl e \<Rightarrow> Inl e
      | Inr ps \<Rightarrow>
     (case py_get ps (str ''registry.terraform.io/'' @ provider_supplier @ str ''/'' @ provider_name)
             (JObj []) of
        Inl e \<Rightarrow> Inl e
      | Inr p \<Rightarrow> py_get p (str ''resource_schemas'') (JObj [])))"

definition schema_path :: "pystr \<Rightarrow> pystr \<Rightarrow> pystr" where
  "schema_path provider_name provider_version =
     provider_name @ str ''_'' @ provider_version @ str ''_schema.json''"

definition extract_full_block_tree ::
  "json filesystem \<Rightarrow> pystr \<Rightarrow> pystr \<Rightarrow> pystr \<Rightarrow> pystr
     \<Rightarrow> py_error + (attribute list \<times> block_node list)" where
  "extract_full_block_tree fs provider_supplier resource_type provider_name provider_version =
     (case open_read fs (schema_path provider_name provider_version) of
        Inl e \<Rightarrow> Inl e
      | Inr schema \<Rightarrow>
     (case resource_catalog schema provider_supplier provider_name of
        Inl e \<Rightarrow> Inl e
      | Inr resources \<Rightarrow>
     (case py_get resources resource_type (JObj []) of
        Inl e \<Rightarrow> Inl e
      | Inr resource \<Rightarrow>
          if \<not> truthy resource then Inl (ValueError (not_found_message resource_type))
          else (case py_index resource (str ''block'') of
                  Inl e \<Rightarrow> Inl e
                | Inr root_block \<Rightarrow> parse_block root_block))))"

subsection \<open>The script's entry point\<close>

text \<open>The dicts of the result, as \<open>json.dump\<close> receives them.\<close>

fun attribute_json :: "attribute \<Rightarrow> json" where
  "attribute_json (Attribute n r) = JObj [(str ''name'', JStr n), (str ''required'', r)]"

fun block_node_json :: "block_node \<Rightarrow> json" where
  "block_node_json (BlockNode n m as bs) =
     JObj [(str ''name'', JStr n), (str ''min_items'', m),
           (str ''attributes'', JArr (map attribute_json as)),
           (str ''blocks'', JArr (map block_node_json bs))]"

text \<open>
  How a run ends: \<open>sys.exit(n)\<close> or falling off the end of the script (\<open>Exit\<close>), or an
  exception nobody catches, which the interpreter reports with exit status 1.
\<close>

datatype exit_status = Exit nat | Uncaught py_error

fun exit_code :: "exit_status \<Rightarrow> nat" where
  "exit_code (Exit n) = n"
| "exit_code (Uncaught e) = 1"

record 'a run =
  status :: exit_status
  stdout :: "pystr list"
  world :: "'a filesystem"

definition usage2 :: pystr where
  "usage2 = str ''Usage: python 2_extract_schema_and_wiki.py <provider_supplier> <provider_name> <provider_version> <resource_type>''"

definition extracting_message :: "pystr \<Rightarrow> pystr" where
  "extracting_message resource_type =
     [10, 0x1F50D] @ str '' Extracting schema for resource: '' @ resource_type @ [10]"

definition written_message :: "pystr \<Rightarrow> pystr" where
  "written_message output_path =
     [10, 0x1F4C2] @ str '' Schema summary written to: '' @ output_path"

definition summary_path :: "pystr \<Rightarrow> pystr" where
  "summary_path resource_type = path_join (str ''schemas'') (resource_type @ str ''.json'')"

text \<open>
  The \<open>__main__\<close> block, from the check of \<open>sys.argv\<close> to the write of the schema summary.
  \<open>argv\<close> is \<open>sys.argv\<close>, the script's name first. Only \<open>ValueError\<close> is caught. The
  download of the documentation page, which follows the write, is a network fetch and is
  not part of the model.
\<close>

definition extract_main :: "pystr list \<Rightarrow> json filesystem \<Rightarrow> json run" where
  "extract_main argv fs =
     (case argv of
        [script, provider_supplier, provider_name, provider_version, resource_type] \<Rightarrow>
          (let out = [extracting_message resource_type] in
           case extract_full_block_tree fs provider_supplier resource_type
                  provider_name provider_version of
             Inl (ValueError msg) \<Rightarrow> \<lparr>status = Exit 1, stdout = out @ [msg], world = fs\<rparr>
           | Inl e \<Rightarrow> \<lparr>status = Uncaught e, stdout = out, world = fs\<rparr>
           | Inr (args, blks) \<Rightarrow>
               (case makedirs (str ''schemas'') fs of
                  Inl e \<Rightarrow> \<lparr>status = Uncaught e, stdout = out, world = fs\<rparr>
                | Inr fs1 \<Rightarrow>
                    if summary_path resource_type \<in> dirs fs1
                    then \<lparr>status = Uncaught (IsADirectoryError (summary_path resource_type)),
                          stdout = out, world = fs1\<rparr>
                    else \<lparr>status = Exit 0,
                          stdout = out @ [written_message (summary_path resource_type)],
                          world = fs1\<lparr>files := (files fs1)(summary_path resource_type \<mapsto>
                            JObj [(str ''arguments'', JArr (map attribute_json args)),
                                  (str ''block_tree'', JArr (map block_node_json blks))])\<rparr>\<rparr>))
      | _ \<Rightarrow> \<lparr>status = Exit 1, stdout = [usage2], world = fs\<rparr>)"

subsection \<open>What the extractor is to compute\<close>

text \<open>
  The words of the specification, for comparison with the code. A flag of an attribute
  is the value the document gives it, false when the document omits it; an attribute is
  included when it is required or not computed.
\<close>

definition flag :: "json \<Rightarrow> pystr \<Rightarrow> json" where
  "flag attr k =
     (case attr of
        JObj kvs \<Rightarrow> (case map_of kvs k of Some v \<Rightarrow> v | None \<Rightarrow> JBool False)
      | _ \<Rightarrow> JBool False)"

definition is_required :: "json \<Rightarrow> json" where
  "is_required attr = flag attr (str ''required'')"

definition is_computed :: "json \<Rightarrow> json" where
  "is_computed attr = flag attr (str ''computed'')"







subsection \<open>A schema document\<close>

definition example_block :: json where
  "example_block =
     JObj [(str ''attributes'', JObj [
              (str ''name'', JObj [(str ''type'', JStr (str ''string'')), (str ''required'', JBool True)]),
              (str ''id'', JObj [(str ''type'', JStr (str ''string'')), (str ''computed'', JBool True)]),
              (str ''location'', JObj [(str ''optional'', JBool True), (str ''computed'', JBool True),
                                       (str ''required'', JBool False)]),
              (str ''tags'', JObj [(str ''optional'', JBool True)])]),
           (str ''block_types'', JObj [
              (str ''identity'', JObj [
                 (str ''nesting_mode'', JStr (str ''list'')),
                 (str ''block'', JObj [(str ''attributes'', JObj [
                    (str ''principal_id'', JObj [(str ''computed'', JBool True)]),
                    (str ''type'', JObj [(str ''required'', JBool True)])])]),
                 (str ''max_items'', JInt 1)]),
              (str ''network_rules'', JObj [
                 (str ''block'', JObj [(str ''attributes'', JObj [
                    (str ''bypass'', JObj [(str ''optional'', JBool True)])])]),
                 (str ''min_items'', JInt 1)])])]"

definition example_schema :: json where
  "example_schema =
     JObj [(str ''format_version'', JStr (str ''1.0'')),
           (str ''provider_schemas'', JObj [
              (str ''registry.terraform.io/hashicorp/azurerm'', JObj [
                 (str ''resource_schemas'', JObj [
                    (str ''azurerm_storage_account'',
                       JObj [(str ''version'', JInt 4), (str ''block'', example_block)]),
                    (str ''azurerm_placeholder'', JObj [])])])])]"

definition example_fs :: "json filesystem" where
  "example_fs = \<lparr>dirs = {}, files = [str ''azurerm_4.0.0_schema.json'' \<mapsto> example_schema]\<rparr>"


text \<open>A document that lists no provider at all.\<close>

definition empty_schema_fs :: "json filesystem" where
  "empty_schema_fs = \<lparr>dirs = {}, files = [str ''azurerm_4.0.0_schema.json'' \<mapsto> JObj []]\<rparr>"

section \<open>The module generator (3_crew_terraform.py)\<close>

subsection \<open>clean_content\<close>

text \<open>
  \<open>split_first pat s\<close> finds the leftmost occurrence of \<open>pat\<close> in \<open>s\<close> and returns what
  is before it and what is after it. It is what a lazy \<open>.*?\<close> followed by a literal
  matches under \<open>re.DOTALL\<close>, where the dot matches every character.
\<close>

fun split_first :: "pystr \<Rightarrow> pystr \<Rightarrow> (pystr \<times> pystr) option" where
  "split_first pat [] = (if pat = [] then Some ([], []) else None)"
| "split_first pat (c # cs) =
     (if prefix pat (c # cs) then Some ([], drop (length pat) (c # cs))
      else case split_first pat cs of
             None \<Rightarrow> None
           | Some (before, after) \<Rightarrow> Some (c # before, after))"

definition fence :: pystr where
  "fence = [96, 96, 96]"

text \<open>
  The rest of the first pattern, tried on the text after an opening fence:
  \<open>(?:.*?\n)?(.*?)```\<close>. The optional group is tried first, up to the first newline;
  the match then ends at the first fence after that newline. When there is no newline, or
  no fence after it, the group is left out and the match ends at the first fence. A later
  newline cannot help: a fence after it would be a fence after the first one. The result
  is group 1 and the text after the closing fence.
\<close>

definition fence_match :: "pystr \<Rightarrow> (pystr \<times> pystr) option" where
  "fence_match t =
     (case split_first [10] t of
        None \<Rightarrow> split_first fence t
      | Some (tag, body) \<Rightarrow>
          (case split_first fence body of
             Some r \<Rightarrow> Some r
           | None \<Rightarrow> split_first fence t))"

lemma split_first_length:
  "split_first pat s = Some (before, after) \<Longrightarrow> length after \<le> length s"
  by (induction s arbitrary: before) (auto split: if_splits option.splits)

lemma fence_match_length:
  "fence_match t = Some (body, rest) \<Longrightarrow> length rest \<le> length t"
  unfolding fence_match_def
  by (auto split: option.splits dest!: split_first_length)

text \<open>
  \<open>re.sub(r"```(?:.*?\n)?(.*?)```", r"\1", content, flags=re.DOTALL)\<close>: the text is
  scanned from the left; where the pattern matches, the match is replaced by group 1 and
  the scan goes on after the match; elsewhere the character is kept.
\<close>

function unfence :: "pystr \<Rightarrow> pystr" where
  "unfence [] = []"
| "unfence (c # cs) =
     (if prefix fence (c # cs)
      then (case fence_match (drop 3 (c # cs)) of
              Some (body, rest) \<Rightarrow> body @ unfence rest
            | None \<Rightarrow> c # unfence cs)
      else c # unfence cs)"
  by pat_completeness auto
termination
  by (relation "measure length") (auto dest!: fence_match_length)

text \<open>
  \<open>re.sub(r'/\*\*.*?\*/', '', content, flags=re.DOTALL)\<close>: a match starts at \<open>/**\<close> and
  ends at the first \<open>*/\<close> that begins after those three characters.
\<close>

function strip_comments :: "pystr \<Rightarrow> pystr" where
  "strip_comments [] = []"
| "strip_comments (c # cs) =
     (if prefix (str ''/**'') (c # cs)
      then (case split_first (str ''*/'') (drop 3 (c # cs)) of
              Some (body, rest) \<Rightarrow> strip_comments rest
            | None \<Rightarrow> c # strip_comments cs)
      else c # strip_comments cs)"
  by pat_completeness auto
termination
  by (relation "measure length") (auto dest!: split_first_length)

text \<open>The character class of the fourth step: U+200B, U+200C, U+200D, U+FEFF and U+00A0.\<close>

definition invisible :: "nat \<Rightarrow> bool" where
  "invisible c = (c = 0x200B \<or> c = 0x200C \<or> c = 0x200D \<or> c = 0xFEFF \<or> c = 0xA0)"

text \<open>The characters \<open>str.strip()\<close> removes: those for which \<open>str.isspace\<close> holds.\<close>

definition py_isspace :: "nat \<Rightarrow> bool" where
  "py_isspace c =
     ((9 \<le> c \<and> c \<le> 13) \<or> (28 \<le> c \<and> c \<le> 32) \<or> c = 0x85 \<or> c = 0xA0 \<or> c = 0x1680 \<or>
      (0x2000 \<le> c \<and> c \<le> 0x200A) \<or> c = 0x2028 \<or> c = 0x2029 \<or> c = 0x202F \<or>
      c = 0x205F \<or> c = 0x3000)"

definition py_strip :: "pystr \<Rightarrow> pystr" where
  "py_strip s = rev (dropWhile py_isspace (rev (dropWhile py_isspace s)))"

text \<open>
  A surrogate code point has no UTF-8 encoding; with \<open>'ignore'\<close> the encoder drops it.
  Every other code point survives encoding and decoding, so the bytes in between are
  represented by the code points they encode.
\<close>

definition surrogate :: "nat \<Rightarrow> bool" where
  "surrogate c = (0xD800 \<le> c \<and> c \<le> 0xDFFF)"

definition encode_utf8_ignore :: "pystr \<Rightarrow> pystr" where
  "encode_utf8_ignore s = filter (\<lambda>c. \<not> surrogate c) s"

text \<open>\<open>utf-8-sig\<close>: the encoder puts a byte-order mark first, the decoder drops a leading one.\<close>

definition encode_utf8_sig_ignore :: "pystr \<Rightarrow> pystr" where
  "encode_utf8_sig_ignore s = 0xFEFF # encode_utf8_ignore s"

fun decode_utf8_sig :: "pystr \<Rightarrow> pystr" where
  "decode_utf8_sig [] = []"
| "decode_utf8_sig (c # cs) = (if c = 0xFEFF then cs else c # cs)"

definition clean_content :: "pystr \<Rightarrow> pystr" where
  "clean_content content0 =
     (let content1 = unfence content0;
          content2 = filter (\<lambda>c. c \<noteq> 96) content1;
          content3 = py_strip (strip_comments content2);
          content4 = py_strip (filter (\<lambda>c. \<not> invisible c) content3);
          content5 = encode_utf8_ignore content4;
          content6 = py_strip (decode_utf8_sig (encode_utf8_sig_ignore content5))
      in content6)"



subsection \<open>The schema summary and the task descriptions\<close>

text \<open>
  The summary file as the script reads it back: a block of the tree has a name, its
  \<open>min_items\<close> (an integer in every summary the extractor writes from a provider schema),
  its attributes and its nested blocks.
\<close>

datatype summary_block =
  SummaryBlock (sb_name: pystr) (sb_min_items: int)
               (sb_attributes: "attribute list") (sb_blocks: "summary_block list")

text \<open>\<open>str(n)\<close> for an integer: its decimal digits, with a minus sign when negative.\<close>

function digits :: "nat \<Rightarrow> pystr" where
  "digits n = (if n < 10 then [48 + n] else digits (n div 10) @ [48 + n mod 10])"
  by pat_completeness auto
termination
  by (relation "measure id") auto

declare digits.simps [simp del]

definition py_str_int :: "int \<Rightarrow> pystr" where
  "py_str_int i = (if i < 0 then 45 # digits (nat (- i)) else digits (nat i))"

text \<open>\<open>f"- {name} ({required})"\<close>, where \<open>required\<close> is chosen by the truth value.\<close>

definition argument_line :: "attribute \<Rightarrow> pystr" where
  "argument_line a =
     str ''- '' @ attr_name a @ str '' ('' @
     (if truthy (attr_required a) then str ''required'' else str ''optional'') @ str '')''"

text \<open>\<open>"  " * indent\<close>.\<close>

definition indentation :: "nat \<Rightarrow> pystr" where
  "indentation indent = concat (replicate indent (str ''  ''))"

fun format_block :: "summary_block \<Rightarrow> nat \<Rightarrow> pystr list"
  and format_block_tree :: "summary_block list \<Rightarrow> nat \<Rightarrow> pystr list" where
  "format_block (SummaryBlock n m as bs) indent =
     [indentation indent @ str ''- '' @ n @ str '' (min_items='' @ py_str_int m @ str '')''] @
     map (\<lambda>a. indentation (indent + 1) @ argument_line a) as @
     (if bs \<noteq> [] then format_block_tree bs (indent + 1) else [])"
| "format_block_tree [] indent = []"
| "format_block_tree (b # bs) indent = format_block b indent @ format_block_tree bs indent"

text \<open>\<open>sep.join(lines)\<close>.\<close>

fun py_join :: "pystr \<Rightarrow> pystr list \<Rightarrow> pystr" where
  "py_join sep [] = []"
| "py_join sep [x] = x"
| "py_join sep (x # y # ys) = x @ sep @ py_join sep (y # ys)"

text \<open>
  The module-level variable \<open>schema_summary\<close>: the opening line, one line for each
  argument, added in a loop, and the block tree.
\<close>

definition schema_summary :: "pystr \<Rightarrow> attribute list \<Rightarrow> summary_block list \<Rightarrow> pystr" where
  "schema_summary resource_type arguments block_tree =
     foldl (\<lambda>s arg. s @ argument_line arg @ [10])
       (str ''You are generating Terraform code for resource '' @ resource_type @
        str ''.'' @ [10] @ str ''Arguments:'' @ [10])
       arguments
     @ [10] @ str ''Nested Block Tree:'' @ [10] @ py_join [10] (format_block_tree block_tree 0)"

text \<open>The literal text of \<open>variables_task\<close> between the schema summary and the markdown.\<close>

definition variables_head :: pystr where
  \<open>variables_head = str (concat [
     ''\<newline>'',
     ''\<newline>'',
     ''Use the markdown below to extract the exact description text for each argument and block.\<newline>'',
     ''\<newline>'',
     ''--- START MARKDOWN ---\<newline>''])\<close>

text \<open>The literal text of \<open>variables_task\<close> after the markdown. Only the pieces marked \<open>f\<close> in the source are format strings, so the doubled braces of the other pieces stay doubled.\<close>

definition variables_rules :: pystr where
  \<open>variables_rules = str (concat [
     ''\<newline>'',
     ''--- END MARKDOWN ---\<newline>'',
     ''\<newline>'',
     ''Instructions for generating variables.tf:\<newline>'',
     ''\<newline>'',
     ''1. VARIABLE INCLUSION:\<newline>'',
     ''   - Generate a valid `variables.tf` file\<newline>'',
     ''   - Include ALL variables from the schema, both required and optional\<newline>'',
     ''   - Do NOT include the Timeouts block as a variable\<newline>'',
     ''\<newline>'',
     ''2. VARIABLE TYPES:\<newline>'',
     ''   - Use the correct Terraform type for each variable based on the schema\<newline>'',
     ''   - For simple types: use `string`, `number`, `bool`\<newline>'',
     ''   - For nested structures: use `object({...})` or `list(object({...}))`\<newline>'',
     ''   - For maps: use `map(string)`, `map(object({...}))`, etc.\<newline>'',
     ''   - For lists: use `list(string)`, `list(object({...}))`, etc.\<newline>'',
     ''\<newline>'',
     ''3. DEFAULT VALUES:\<newline>'',
     ''   - All optional variables MUST have a default value\<newline>'',
     ''   - Required variables must NOT have a default value\<newline>'',
     ''   - Default values by type:\<newline>'',
     ''     * Optional string variables: `default = null`\<newline>'',
     ''     * Optional number variables: `default = null`\<newline>'',
     ''     * Optional bool variables: `default = null`\<newline>'',
     ''     * Optional object variables: `default = {{}}`\<newline>'',
     ''     * Optional map variables: `default = {{}}`\<newline>'',
     ''     * Optional list variables: `default = []`\<newline>'',
     ''\<newline>'',
     ''4. OBJECT AND MAP DEFINITIONS:\<newline>'',
     ''   - When defining `object()` types, wrap each property with `optional()` if that property does not require input\<newline>'',
     ''   - Example: `object({{name = string, location = optional(string), tags = optional(map(string))}})`\<newline>'',
     ''   - For nested objects, apply `optional()` consistently at each nesting level\<newline>'',
     ''\<newline>'',
     ''5. DESCRIPTIONS:\<newline>'',
     ''   - Every variable MUST have a `description` property\<newline>'',
     ''   - Copy the description text EXACTLY from the markdown documentation\<newline>'',
     ''   - The `description` property MUST be the LAST property in each variable block\<newline>'',
     ''   - For simple variables (string, number, bool, simple lists): use single-line or standard multi-line descriptions\<newline>'',
     ''   - For complex variables (objects, maps with multiple properties): use extensive descriptions with the format:\<newline>'',
     ''     description = <<DESCRIPTION\<newline>'',
     ''     [Main description from markdown]\<newline>'',
     ''     Properties:\<newline>'',
     ''     - property_name: description of this property\<newline>'',
     ''     - nested_property: description of nested property\<newline>'',
     ''     DESCRIPTION\<newline>'',
     ''   - The markers `<<DESCRIPTION` and `DESCRIPTION` are LITERAL text to be used\<newline>'',
     ''\<newline>'',
     ''6. FORMATTING:\<newline>'',
     ''   - Use consistent indentation (2 spaces per level)\<newline>'',
     ''   - Place each variable in a separate `variable` block\<newline>'',
     ''   - Order variables logically: required variables first, then optional variables\<newline>'',
     ''   - Do NOT include any comments in the code\<newline>'',
     ''\<newline>'',
     ''7. OUTPUT REQUIREMENTS:\<newline>'',
     ''   - Output ONLY raw Terraform HCL code\<newline>'',
     ''   - Do NOT wrap the output in markdown code blocks (no ```, no backticks)\<newline>'',
     ''   - Do NOT include any commentary, explanations, or extra text\<newline>'',
     ''   - The output should be ready to write directly to a .tf file''])\<close>

text \<open>The literal text of \<open>main_task\<close> between the schema summary and the resource type.\<close>

definition main_head :: pystr where
  \<open>main_head = str (concat [
     ''\<newline>'',
     ''\<newline>'',
     ''Generate a valid Terraform `main.tf` file that creates the resource ''])\<close>

text \<open>The literal text of \<open>main_task\<close> after the resource type.\<close>

definition main_rules :: pystr where
  \<open>main_rules = str (concat [
     ''.\<newline>'',
     ''\<newline>'',
     ''Instructions for generating main.tf:\<newline>'',
     ''\<newline>'',
     ''1. RESOURCE DEFINITION:\<newline>'',
     ''   - Create a single resource block for the resource type\<newline>'',
     ''   - Do NOT include a provider block or provider configuration\<newline>'',
     ''   - Do NOT include the Timeouts block\<newline>'',
     ''\<newline>'',
     ''2. RESOURCE NAMING (CAF CONVENTIONS):\<newline>'',
     ''   - The resource label (local identifier after the resource type) MUST use the exact abbreviation from Microsoft's Cloud Adoption Framework (CAF)\<newline>'',
     ''   - Find the abbreviation by matching the Azure resource type in the official CAF documentation:\<newline>'',
     ''     https://raw.githubusercontent.com/MicrosoftDocs/cloud-adoption-framework/refs/heads/main/docs/ready/azure-best-practices/resource-abbreviations.md\<newline>'',
     ''   - Example: For Route Server (Microsoft.Network/virtualHubs), use 'rtserv':\<newline>'',
     ''     resource "azurerm_route_server" "rtserv" {{ ... }}\<newline>'',
     ''   - Example: For Storage Account (Microsoft.Storage/storageAccounts), use 'st':\<newline>'',
     ''     resource "azurerm_storage_account" "st" {{ ... }}\<newline>'',
     ''\<newline>'',
     ''3. VARIABLE REFERENCES:\<newline>'',
     ''   - Reference all simple arguments (strings, numbers, bools, simple lists) using `var.variable_name`\<newline>'',
     ''   - For required arguments: directly use `var.variable_name`\<newline>'',
     ''   - For optional arguments with defaults: use `var.variable_name` (Terraform will use the default if not provided)\<newline>'',
     ''\<newline>'',
     ''4. DYNAMIC BLOCKS:\<newline>'',
     ''   - Use `dynamic` blocks ONLY for properties listed in the Nested Block Tree\<newline>'',
     ''   - Do NOT use dynamic blocks for simple arguments\<newline>'',
     ''   - Each dynamic block must use the exact block name from the schema\<newline>'',
     ''\<newline>'',
     ''5. DYNAMIC BLOCK SYNTAX:\<newline>'',
     ''   - Use `for_each` with implicit iterators\<newline>'',
     ''   - The iterator name MUST match the block name (implicit iterator pattern)\<newline>'',
     ''   - Do NOT create custom iterator names\<newline>'',
     ''   - Access values using `block_name.value` syntax\<newline>'',
     ''   - Example:\<newline>'',
     ''     dynamic "identity" {{\<newline>'',
     ''       for_each = var.identity != null ? [var.identity] : []\<newline>'',
     ''       content {{\<newline>'',
     ''         type = identity.value.type\<newline>'',
     ''         identity_ids = identity.value.identity_ids\<newline>'',
     ''       }}\<newline>'',
     ''     }}\<newline>'',
     ''\<newline>'',
     ''6. NESTED DYNAMIC BLOCKS:\<newline>'',
     ''   - When nesting dynamic blocks, each level accesses its parent via `parent_block_name.value`\<newline>'',
     ''   - Do NOT use `var.*` to access variables inside nested content blocks\<newline>'',
     ''   - Access parent dynamic block properties only via the iterator value reference\<newline>'',
     ''   - Example:\<newline>'',
     ''     dynamic "site_config" {{\<newline>'',
     ''       for_each = var.site_config != null ? [var.site_config] : []\<newline>'',
     ''       content {{\<newline>'',
     ''         dynamic "cors" {{\<newline>'',
     ''           for_each = site_config.value.cors != null ? [site_config.value.cors] : []\<newline>'',
     ''           content {{\<newline>'',
     ''             allowed_origins = cors.value.allowed_origins\<newline>'',
     ''           }}\<newline>'',
     ''         }}\<newline>'',
     ''       }}\<newline>'',
     ''     }}\<newline>'',
     ''\<newline>'',
     ''7. CONTENT BLOCKS:\<newline>'',
     ''   - Do NOT use content{{}} blocks at the root resource level\<newline>'',
     ''   - Content blocks should ONLY appear inside dynamic blocks\<newline>'',
     ''   - The content block defines the structure of each iteration in a dynamic block\<newline>'',
     ''\<newline>'',
     ''8. CONDITIONAL LOGIC:\<newline>'',
     ''   - For optional blocks, use conditional expressions in for_each:\<newline>'',
     ''     for_each = var.block_name != null ? [var.block_name] : []\<newline>'',
     ''   - For optional lists that may be empty:\<newline>'',
     ''     for_each = var.block_list != null ? var.block_list : []\<newline>'',
     ''   - This ensures the block is only created when the variable is provided\<newline>'',
     ''   - IMPORTANT: Do NOT combine both `!= null` AND `length() > 0` checks - choose ONE based on the default value\<newline>'',
     ''\<newline>'',
     ''9. FORMATTING:\<newline>'',
     ''   - Use consistent indentation (2 spaces per level)\<newline>'',
     ''   - Place simple arguments before dynamic blocks\<newline>'',
     ''   - Order arguments alphabetically within each section for consistency\<newline>'',
     ''   - Do NOT include any comments in the code\<newline>'',
     ''\<newline>'',
     ''10. OUTPUT REQUIREMENTS:\<newline>'',
     ''    - Output ONLY valid Terraform HCL code\<newline>'',
     ''    - Do NOT wrap the output in markdown code blocks (no ```, no backticks)\<newline>'',
     ''    - Do NOT include any commentary, explanations, or extra text\<newline>'',
     ''    - The output should be ready to write directly to a .tf file''])\<close>

text \<open>The literal text of \<open>outputs_task\<close> before the resource type.\<close>

definition outputs_head :: pystr where
  \<open>outputs_head = str (concat [
     ''Generate an outputs.tf file for the resource ''])\<close>

text \<open>The literal text of \<open>outputs_task\<close> after the resource type.\<close>

definition outputs_rules :: pystr where
  \<open>outputs_rules = str (concat [
     ''.\<newline>'',
     ''\<newline>'',
     ''Instructions for generating outputs.tf:\<newline>'',
     ''\<newline>'',
     ''1. OUTPUT CONTENT:\<newline>'',
     ''   - Create a SINGLE output that exposes the resource ID\<newline>'',
     ''   - The output name should be: `id`\<newline>'',
     ''   - The output value should reference: `<resource_type>.<caf_abbreviation>.id`\<newline>'',
     ''\<newline>'',
     ''2. RESOURCE REFERENCE (CAF CONVENTIONS):\<newline>'',
     ''   - The resource reference MUST use the exact abbreviation from Microsoft's Cloud Adoption Framework (CAF)\<newline>'',
     ''   - This abbreviation must match the one used in main.tf\<newline>'',
     ''   - Find the abbreviation by matching the Azure resource type in the official CAF documentation:\<newline>'',
     ''     https://raw.githubusercontent.com/MicrosoftDocs/cloud-adoption-framework/refs/heads/main/docs/ready/azure-best-practices/resource-abbreviations.md\<newline>'',
     ''   - Example: For Route Server (Microsoft.Network/virtualHubs), use 'rtserv':\<newline>'',
     ''     output "id" {{\<newline>'',
     ''       value = azurerm_route_server.rtserv.id\<newline>'',
     ''     }}\<newline>'',
     ''   - Example: For Storage Account (Microsoft.Storage/storageAccounts), use 'st':\<newline>'',
     ''     output "id" {{\<newline>'',
     ''       value = azurerm_storage_account.st.id\<newline>'',
     ''     }}\<newline>'',
     ''\<newline>'',
     ''3. OUTPUT STRUCTURE:\<newline>'',
     ''   - Include a `description` property in the output block\<newline>'',
     ''   - The description should be: "The ID of the <resource_name>"\<newline>'',
     ''   - Example:\<newline>'',
     ''     output "id" {{\<newline>'',
     ''       description = "The ID of the Route Server"\<newline>'',
     ''       value       = azurerm_route_server.rtserv.id\<newline>'',
     ''     }}\<newline>'',
     ''\<newline>'',
     ''4. FORMATTING:\<newline>'',
     ''   - Use consistent indentation (2 spaces per level)\<newline>'',
     ''   - Align the `description` and `value` properties for readability\<newline>'',
     ''   - Do NOT include any comments in the code\<newline>'',
     ''\<newline>'',
     ''5. OUTPUT REQUIREMENTS:\<newline>'',
     ''   - Output ONLY valid Terraform HCL code\<newline>'',
     ''   - Do NOT wrap the output in markdown code blocks (no ```, no backticks)\<newline>'',
     ''   - Do NOT include any commentary, explanations, or extra text\<newline>'',
     ''   - The output should be ready to write directly to a .tf file''])\<close>


definition variables_description :: "pystr \<Rightarrow> pystr \<Rightarrow> pystr" where
  "variables_description summary markdown_content =
     summary @ variables_head @ markdown_content @ variables_rules"

definition main_description :: "pystr \<Rightarrow> pystr \<Rightarrow> pystr" where
  "main_description summary resource_type =
     summary @ main_head @ resource_type @ main_rules"

definition outputs_description :: "pystr \<Rightarrow> pystr" where
  "outputs_description resource_type = outputs_head @ resource_type @ outputs_rules"

text \<open>
  The descriptions of the three tasks, in the order of the script: \<open>variables_task\<close>,
  \<open>main_task\<close>, \<open>outputs_task\<close>. The summary is computed once, before the tasks are
  built.
\<close>

definition task_descriptions ::
  "pystr \<Rightarrow> attribute list \<Rightarrow> summary_block list \<Rightarrow> pystr \<Rightarrow> pystr \<times> pystr \<times> pystr" where
  "task_descriptions resource_type arguments block_tree markdown_content =
     (let summary = schema_summary resource_type arguments block_tree
      in (variables_description summary markdown_content,
          main_description summary resource_type,
          outputs_description resource_type))"

subsection \<open>Writing the module\<close>

text \<open>
  \<open>str.lower()\<close> on the letters A to Z. Python lowers cased letters outside ASCII too;
  the resource types of a provider schema are ASCII identifiers.
\<close>

definition str_lower :: "pystr \<Rightarrow> pystr" where
  "str_lower s = map (\<lambda>c. if 65 \<le> c \<and> c \<le> 90 then c + 32 else c) s"

text \<open>The format string of \<open>terraform.tf\<close>, its doubled braces being single ones.\<close>

definition terraform_tf :: "pystr \<Rightarrow> pystr \<Rightarrow> pystr \<Rightarrow> pystr" where
  \<open>terraform_tf provider_supplier provider_name provider_version =
     str ''terraform {\<newline>'' @
     str ''  required_version = "~> 1.8"\<newline>'' @
     str ''  required_providers {\<newline>'' @
     str ''    '' @ provider_name @ str '' = {\<newline>'' @
     str ''      source  = "'' @ provider_supplier @ str ''/'' @ provider_name @ str ''"\<newline>'' @
     str ''      version = "~> '' @ provider_version @ str ''"\<newline>'' @
     str ''    }\<newline>'' @
     str ''  }\<newline>'' @
     str ''}\<newline>''\<close>

text \<open>\<open>task.output.raw if task.output else ""\<close>: a task may have no output.\<close>

fun raw_or_empty :: "pystr option \<Rightarrow> pystr" where
  "raw_or_empty None = []"
| "raw_or_empty (Some raw) = raw"

text \<open>The dict \<open>generated\<close>, in the order of its keys.\<close>

definition generated ::
  "pystr \<Rightarrow> pystr \<Rightarrow> pystr \<Rightarrow> pystr option \<Rightarrow> pystr option \<Rightarrow> pystr option
     \<Rightarrow> (pystr \<times> pystr) list" where
  "generated provider_supplier provider_name provider_version
       variables_output main_output outputs_output =
     [(str ''variables.tf'', clean_content (raw_or_empty variables_output)),
      (str ''main.tf'', clean_content (raw_or_empty main_output)),
      (str ''outputs.tf'', clean_content (raw_or_empty outputs_output)),
      (str ''terraform.tf'', terraform_tf provider_supplier provider_name provider_version)]"

definition output_folder :: "pystr \<Rightarrow> pystr" where
  "output_folder resource_type = path_join (str ''modules'') (str_lower resource_type)"

text \<open>
  The calls the script can make on the file system, one at a time, so that a run can be
  stopped between two of them: \<open>os.makedirs(path, exist_ok=True)\<close>; \<open>open(path, 'w')\<close>,
  which creates the file or empties it; \<open>f.write(content)\<close> with the close that follows;
  and \<open>os.replace(src, dst)\<close>, the rename a writer would use to publish a temporary file.
\<close>

datatype fs_op =
    MakeDirs pystr
  | OpenTruncate pystr
  | WriteText pystr pystr
  | Rename pystr pystr

text \<open>
  The effect of one call. Text is written as UTF-8, which has no encoding for a
  surrogate: the write raises and leaves the file as \<open>open\<close> left it.
\<close>

fun exec_op :: "fs_op \<Rightarrow> pystr filesystem \<Rightarrow> py_error + pystr filesystem" where
  "exec_op (MakeDirs path) fs = makedirs path fs"
| "exec_op (OpenTruncate path) fs =
     (if path \<in> dirs fs then Inl (IsADirectoryError path)
      else Inr (fs\<lparr>files := (files fs)(path \<mapsto> [])\<rparr>))"
| "exec_op (WriteText path content) fs =
     (if list_ex surrogate content then Inl UnicodeEncodeError
      else Inr (fs\<lparr>files := (files fs)(path \<mapsto>
                  (case files fs path of None \<Rightarrow> content | Some old \<Rightarrow> old @ content))\<rparr>))"
| "exec_op (Rename src dst) fs =
     (case files fs src of
        None \<Rightarrow> Inl (FileNotFoundError src)
      | Some c \<Rightarrow>
          if dst \<in> dirs fs then Inl (IsADirectoryError dst)
          else Inr (fs\<lparr>files := (files fs)(src := None, dst \<mapsto> c)\<rparr>))"

text \<open>Calls are made in order; the first exception ends the run.\<close>

fun run_ops :: "fs_op list \<Rightarrow> pystr filesystem \<Rightarrow> py_error option \<times> pystr filesystem" where
  "run_ops [] fs = (None, fs)"
| "run_ops (op # ops) fs =
     (case exec_op op fs of
        Inl e \<Rightarrow> (Some e, fs)
      | Inr fs' \<Rightarrow> run_ops ops fs')"

text \<open>The body of the loop over \<open>generated.items()\<close>: an empty text is skipped.\<close>

fun write_file_ops :: "pystr \<Rightarrow> pystr \<times> pystr \<Rightarrow> fs_op list" where
  "write_file_ops folder (filename, content) =
     (if content \<noteq> []
      then [OpenTruncate (path_join folder filename), WriteText (path_join folder filename) content]
      else [])"

text \<open>The calls of the script's last section, from \<open>os.makedirs\<close> to the end of the loop.\<close>

definition module_ops :: "pystr \<Rightarrow> (pystr \<times> pystr) list \<Rightarrow> fs_op list" where
  "module_ops resource_type gen =
     MakeDirs (output_folder resource_type) #
     concat (map (write_file_ops (output_folder resource_type)) gen)"

definition write_module ::
  "pystr \<Rightarrow> (pystr \<times> pystr) list \<Rightarrow> pystr filesystem \<Rightarrow> py_error option \<times> pystr filesystem" where
  "write_module resource_type gen fs = run_ops (module_ops resource_type gen) fs"

text \<open>A run that is stopped after its first \<open>k\<close> calls.\<close>

definition aborted_write_module ::
  "nat \<Rightarrow> pystr \<Rightarrow> (pystr \<times> pystr) list \<Rightarrow> pystr filesystem \<Rightarrow> py_error option \<times> pystr filesystem" where
  "aborted_write_module k resource_type gen fs = run_ops (take k (module_ops resource_type gen)) fs"

text \<open>Whether a call is the rename, and the path a call creates or writes.\<close>

fun is_rename :: "fs_op \<Rightarrow> bool" where
  "is_rename (Rename src dst) = True"
| "is_rename _ = False"

fun op_path :: "fs_op \<Rightarrow> pystr" where
  "op_path (MakeDirs path) = path"
| "op_path (OpenTruncate path) = path"
| "op_path (WriteText path content) = path"
| "op_path (Rename src dst) = dst"


subsection \<open>Answers of the generation backend and a module directory\<close>

definition body_st :: pystr where
  \<open>body_st = str ''resource "azurerm_storage_account" "st" {\<newline>  name = var.name\<newline>}''\<close>

definition outputs_stacct :: pystr where
  \<open>outputs_stacct = str ''output "id" {\<newline>  value = azurerm_storage_account.stacct.id\<newline>}''\<close>

definition variables_name :: pystr where
  \<open>variables_name = str ''variable "name" {\<newline>  type = string\<newline>}''\<close>

definition empty_fs :: "pystr filesystem" where
  "empty_fs = \<lparr>dirs = {}, files = Map.empty\<rparr>"

text \<open>A module directory left by an earlier run.\<close>

definition old_variables :: pystr where
  \<open>old_variables = str ''variable "old" {}''\<close>

definition earlier_fs :: "pystr filesystem" where
  "earlier_fs =
     \<lparr>dirs = {str ''modules/azurerm_storage_account''},
      files = [str ''modules/azurerm_storage_account/variables.tf'' \<mapsto> old_variables]\<rparr>"

section \<open>Properties of the schema extractor\<close>



lemma py_get_Inr: "py_get a k d = Inr v \<Longrightarrow> \<exists>kvs. a = JObj kvs"
  by (cases a) auto


lemma attributes_loop_dicts:
  "attributes_loop items acc = Inr out \<Longrightarrow> (n, a) \<in> set items \<Longrightarrow>
     \<exists>r c. py_get a (str ''required'') (JBool False) = Inr r \<and>
           py_get a (str ''computed'') (JBool False) = Inr c"
proof (induction items arbitrary: acc)
  case Nil
  then show ?case by simp
next
  case (Cons p items)
  obtain n' a' where p: "p = (n', a')" by (cases p)
  from Cons.prems(1) p obtain r c where
    r: "py_get a' (str ''required'') (JBool False) = Inr r" and
    c: "py_get a' (str ''computed'') (JBool False) = Inr c"
    by (auto split: sum.splits)
  from Cons.prems(1) p r c obtain acc' where rest: "attributes_loop items acc' = Inr out"
    by (cases "\<not> truthy r \<and> truthy c") auto
  show ?case
  proof (cases "(n, a) = p")
    case True
    with p r c show ?thesis by auto
  next
    case False
    with Cons.prems(2) have "(n, a) \<in> set items" by simp
    from Cons.IH [OF rest this] show ?thesis .
  qed
qed













lemma extract_not_found:
  assumes "open_read fs (schema_path provider_name provider_version) = Inr schema"
    and "resource_catalog schema provider_supplier provider_name = Inr resources"
    and "py_get resources resource_type (JObj []) = Inr resource"
    and "\<not> truthy resource"
  shows "extract_full_block_tree fs provider_supplier resource_type provider_name
           provider_version = Inl (ValueError (not_found_message resource_type))"
  using assms by (simp add: extract_full_block_tree_def)

lemma extract_main_not_found:
  assumes "extract_full_block_tree fs provider_supplier resource_type provider_name
             provider_version = Inl (ValueError msg)"
  shows "extract_main [script, provider_supplier, provider_name, provider_version, resource_type] fs
           = \<lparr>status = Exit 1, stdout = [extracting_message resource_type, msg], world = fs\<rparr>"
  using assms by (simp add: extract_main_def)


lemma example_open:
  "open_read example_fs (schema_path (str ''azurerm'') (str ''4.0.0'')) = Inr example_schema"
  by (simp add: open_read_def schema_path_def example_fs_def str_def)

lemma example_catalog:
  "resource_catalog example_schema (str ''hashicorp'') (str ''azurerm'') =
     Inr (JObj [(str ''azurerm_storage_account'',
                   JObj [(str ''version'', JInt 4), (str ''block'', example_block)]),
                (str ''azurerm_placeholder'', JObj [])])"
  by (simp add: resource_catalog_def example_schema_def str_def)




text \<open>
  Claim C4. When the resource type is absent from the catalog of the given provider, the
  extractor raises the \<open>ValueError\<close> whose message holds the resource type; the script
  prints that message, exits with status 1 and leaves the file system as it was, so no
  schema summary and no \<open>schemas\<close> directory is written.
\<close>

theorem absent_resource_type_fails:
  assumes "open_read fs (schema_path provider_name provider_version) = Inr schema"
    and "resource_catalog schema provider_supplier provider_name = Inr (JObj catalog)"
    and "map_of catalog resource_type = None"
  shows "extract_full_block_tree fs provider_supplier resource_type provider_name
           provider_version = Inl (ValueError (not_found_message resource_type)) \<and>
         sublist resource_type (not_found_message resource_type) \<and>
         extract_main [script, provider_supplier, provider_name, provider_version, resource_type] fs
           = \<lparr>status = Exit 1,
              stdout = [extracting_message resource_type, not_found_message resource_type],
              world = fs\<rparr>"
proof -
  from assms(3) have g: "py_get (JObj catalog) resource_type (JObj []) = Inr (JObj [])" by simp
  have e: "extract_full_block_tree fs provider_supplier resource_type provider_name
             provider_version = Inl (ValueError (not_found_message resource_type))"
    by (rule extract_not_found [OF assms(1,2) g]) simp
  have "not_found_message resource_type =
          ([0x274C] @ str '' Resource type '' @ [39]) @ resource_type @
          ([39] @ str '' not found in schema.'')"
    by (simp add: not_found_message_def)
  then have s: "sublist resource_type (not_found_message resource_type)"
    unfolding sublist_def by blast
  from e s extract_main_not_found [OF e] show ?thesis by simp
qed

theorem absent_resource_type_fails_witness:
  "open_read example_fs (schema_path (str ''azurerm'') (str ''4.0.0'')) = Inr example_schema \<and>
   map_of [(str ''azurerm_storage_account'',
              JObj [(str ''version'', JInt 4), (str ''block'', example_block)]),
           (str ''azurerm_placeholder'', JObj [])] (str ''azurerm_route_server'') = None \<and>
   extract_main [str ''2_extract_schema_and_wiki.py'', str ''hashicorp'', str ''azurerm'',
                 str ''4.0.0'', str ''azurerm_route_server''] example_fs
     = \<lparr>status = Exit 1,
        stdout = [extracting_message (str ''azurerm_route_server''),
                  not_found_message (str ''azurerm_route_server'')],
        world = example_fs\<rparr>"
proof -
  have m: "map_of [(str ''azurerm_storage_account'',
              JObj [(str ''version'', JInt 4), (str ''block'', example_block)]),
           (str ''azurerm_placeholder'', JObj [])] (str ''azurerm_route_server'') = None"
    by (simp add: str_def)
  from absent_resource_type_fails [OF example_open example_catalog m] example_open m
  show ?thesis by simp
qed

text \<open>
  Claim C10. A resource type whose entry in the catalog is present but empty (or any
  other value Python takes as false) gets the same \<open>ValueError\<close>, with the same message,
  as a resource type the catalog lacks: the two results are equal.
\<close>

theorem empty_entry_reported_as_absent:
  assumes "open_read fs (schema_path provider_name provider_version) = Inr schema"
    and "resource_catalog schema provider_supplier provider_name = Inr (JObj catalog)"
    and "map_of catalog resource_type = Some entry"
    and "\<not> truthy entry"
    and "open_read fs' (schema_path provider_name provider_version) = Inr schema'"
    and "resource_catalog schema' provider_supplier provider_name = Inr (JObj catalog')"
    and "map_of catalog' resource_type = None"
  shows "extract_full_block_tree fs provider_supplier resource_type provider_name
           provider_version = Inl (ValueError (not_found_message resource_type)) \<and>
         extract_full_block_tree fs provider_supplier resource_type provider_name
           provider_version =
         extract_full_block_tree fs' provider_supplier resource_type provider_name
           provider_version"
proof -
  from assms(3) have g: "py_get (JObj catalog) resource_type (JObj []) = Inr entry" by simp
  from assms(7) have g': "py_get (JObj catalog') resource_type (JObj []) = Inr (JObj [])" by simp
  have "extract_full_block_tree fs provider_supplier resource_type provider_name
          provider_version = Inl (ValueError (not_found_message resource_type))"
    by (rule extract_not_found [OF assms(1,2) g assms(4)])
  moreover have "extract_full_block_tree fs' provider_supplier resource_type provider_name
          provider_version = Inl (ValueError (not_found_message resource_type))"
    by (rule extract_not_found [OF assms(5,6) g']) simp
  ultimately show ?thesis by simp
qed


lemma empty_schema_open:
  "open_read empty_schema_fs (schema_path (str ''azurerm'') (str ''4.0.0'')) = Inr (JObj [])"
  by (simp add: open_read_def schema_path_def empty_schema_fs_def str_def)

lemma empty_schema_catalog:
  "resource_catalog (JObj []) (str ''hashicorp'') (str ''azurerm'') = Inr (JObj [])"
  by (simp add: resource_catalog_def)

theorem empty_entry_reported_as_absent_witness:
  "map_of [(str ''azurerm_storage_account'',
              JObj [(str ''version'', JInt 4), (str ''block'', example_block)]),
           (str ''azurerm_placeholder'', JObj [])] (str ''azurerm_placeholder'') = Some (JObj []) \<and>
   \<not> truthy (JObj []) \<and>
   extract_full_block_tree example_fs (str ''hashicorp'') (str ''azurerm_placeholder'')
     (str ''azurerm'') (str ''4.0.0'') =
     Inl (ValueError (not_found_message (str ''azurerm_placeholder''))) \<and>
   extract_full_block_tree example_fs (str ''hashicorp'') (str ''azurerm_placeholder'')
     (str ''azurerm'') (str ''4.0.0'') =
   extract_full_block_tree empty_schema_fs (str ''hashicorp'') (str ''azurerm_placeholder'')
     (str ''azurerm'') (str ''4.0.0'')"
proof -
  have m: "map_of [(str ''azurerm_storage_account'',
              JObj [(str ''version'', JInt 4), (str ''block'', example_block)]),
           (str ''azurerm_placeholder'', JObj [])] (str ''azurerm_placeholder'') = Some (JObj [])"
    by (simp add: str_def)
  have f: "\<not> truthy (JObj [])" by simp
  have n: "map_of [] (str ''azurerm_placeholder'') = (None :: json option)" by simp
  from empty_entry_reported_as_absent
         [OF example_open example_catalog m f empty_schema_open empty_schema_catalog n] m f
  show ?thesis by blast
qed

section \<open>Properties of the sanitizer\<close>

lemma split_first_set:
  "split_first pat s = Some (before, after) \<Longrightarrow> set after \<subseteq> set s"
proof (induction s arbitrary: before)
  case Nil
  then show ?case by (simp split: if_splits)
next
  case (Cons c cs)
  show ?case
  proof (cases "prefix pat (c # cs)")
    case True
    with Cons.prems have "after = drop (length pat) (c # cs)" by simp
    then show ?thesis using set_drop_subset [of "length pat" "c # cs"] by simp
  next
    case False
    with Cons.prems obtain b where "split_first pat cs = Some (b, after)"
      by (auto split: option.splits)
    from Cons.IH [OF this] show ?thesis by auto
  qed
qed

lemma strip_comments_set: "set (strip_comments s) \<subseteq> set s"
proof (induction s rule: strip_comments.induct)
  case 1
  show ?case by simp
next
  case (2 c cs)
  show ?case
  proof (cases "prefix (str ''/**'') (c # cs)")
    case False
    with 2(3) show ?thesis by auto
  next
    case True
    show ?thesis
    proof (cases "split_first (str ''*/'') (drop 3 (c # cs))")
      case None
      from 2(1) [OF True None] True None show ?thesis by auto
    next
      case (Some p)
      obtain body rest where p: "p = (body, rest)" by (cases p)
      from split_first_set Some p have "set rest \<subseteq> set (drop 3 (c # cs))" by blast
      also have "\<dots> \<subseteq> set (c # cs)" by (rule set_drop_subset)
      finally have r: "set rest \<subseteq> set (c # cs)" .
      from 2(2) [OF True Some p [symmetric]] have "set (strip_comments rest) \<subseteq> set rest" .
      with r True Some p show ?thesis by auto
    qed
  qed
qed

lemma strip_comments_length: "length (strip_comments s) \<le> length s"
proof (induction s rule: strip_comments.induct)
  case 1
  show ?case by simp
next
  case (2 c cs)
  show ?case
  proof (cases "prefix (str ''/**'') (c # cs)")
    case False
    with 2(3) show ?thesis by auto
  next
    case True
    show ?thesis
    proof (cases "split_first (str ''*/'') (drop 3 (c # cs))")
      case None
      from 2(1) [OF True None] True None show ?thesis by auto
    next
      case (Some p)
      obtain body rest where p: "p = (body, rest)" by (cases p)
      from split_first_length Some p have "length rest \<le> length (drop 3 (c # cs))" by blast
      then have r: "length rest \<le> length (c # cs)" by simp
      from 2(2) [OF True Some p [symmetric]] have "length (strip_comments rest) \<le> length rest" .
      with r True Some p show ?thesis by auto
    qed
  qed
qed

lemma strip_comments_shorter:
  "strip_comments s \<noteq> s \<Longrightarrow> length (strip_comments s) < length s"
proof (induction s rule: strip_comments.induct)
  case 1
  then show ?case by simp
next
  case (2 c cs)
  show ?case
  proof (cases "prefix (str ''/**'') (c # cs)")
    case False
    with 2(3,4) show ?thesis by auto
  next
    case True
    show ?thesis
    proof (cases "split_first (str ''*/'') (drop 3 (c # cs))")
      case None
      from 2(1) [OF True None] 2(4) True None show ?thesis by auto
    next
      case (Some p)
      obtain body rest where p: "p = (body, rest)" by (cases p)
      from split_first_length Some p have "length rest \<le> length (drop 3 (c # cs))" by blast
      then have r: "length rest < length (c # cs)" by simp
      from strip_comments_length have "length (strip_comments rest) \<le> length rest" .
      with r True Some p show ?thesis by auto
    qed
  qed
qed

lemma unfence_no_backtick: "96 \<notin> set s \<Longrightarrow> unfence s = s"
proof (induction s)
  case Nil
  show ?case by simp
next
  case (Cons c cs)
  then have "c \<noteq> 96" by auto
  then have "\<not> prefix fence (c # cs)" by (auto simp: fence_def)
  with Cons show ?case by simp
qed

lemma py_strip_set: "set (py_strip s) \<subseteq> set s"
proof -
  have "set (py_strip s) \<subseteq> set (dropWhile py_isspace s)"
    unfolding py_strip_def using set_dropWhileD by fastforce
  also have "\<dots> \<subseteq> set s" using set_dropWhileD by fastforce
  finally show ?thesis .
qed

lemma py_strip_length: "length (py_strip s) \<le> length s"
proof -
  have "length (py_strip s) \<le> length (dropWhile py_isspace s)"
    unfolding py_strip_def using length_dropWhile_le [of py_isspace "rev (dropWhile py_isspace s)"]
    by simp
  also have "\<dots> \<le> length s" by (rule length_dropWhile_le)
  finally show ?thesis .
qed

lemma last_dropWhile: "dropWhile P xs \<noteq> [] \<Longrightarrow> last (dropWhile P xs) = last xs"
  by (induction xs) (auto split: if_splits)

lemma py_strip_fixed:
  assumes "s = [] \<or> (\<not> py_isspace (hd s) \<and> \<not> py_isspace (last s))"
  shows "py_strip s = s"
proof (cases "s = []")
  case True
  then show ?thesis by (simp add: py_strip_def)
next
  case False
  with assms have h: "\<not> py_isspace (hd s)" and l: "\<not> py_isspace (last s)" by auto
  from False h have 1: "dropWhile py_isspace s = s" by (cases s) auto
  from False l have 2: "dropWhile py_isspace (rev s) = rev s"
    by (cases "rev s") (auto simp: hd_rev [symmetric] last_rev)
  from 1 2 show ?thesis by (simp add: py_strip_def)
qed

lemma py_strip_ends:
  "py_strip s = [] \<or> (\<not> py_isspace (hd (py_strip s)) \<and> \<not> py_isspace (last (py_strip s)))"
proof (cases "py_strip s = []")
  case True
  then show ?thesis by simp
next
  case False
  define u where "u = dropWhile py_isspace s"
  define v where "v = dropWhile py_isspace (rev u)"
  have t: "py_strip s = rev v" by (simp add: py_strip_def u_def v_def)
  from False t have v: "v \<noteq> []" by simp
  then have u: "u \<noteq> []" by (auto simp: v_def)
  from v have "\<not> py_isspace (hd v)" unfolding v_def by (rule hd_dropWhile)
  then have l: "\<not> py_isspace (last (py_strip s))" using v t by (simp add: last_rev)
  from v have "last v = last (rev u)" unfolding v_def by (rule last_dropWhile)
  also have "\<dots> = hd u" using u by (simp add: last_rev)
  finally have "hd (py_strip s) = hd u" using t v by (simp add: hd_rev)
  moreover from u have "\<not> py_isspace (hd u)" unfolding u_def by (rule hd_dropWhile)
  ultimately show ?thesis using l by simp
qed

lemma py_strip_idem: "py_strip (py_strip s) = py_strip s"
  by (rule py_strip_fixed) (rule py_strip_ends)

lemma utf8_sig_roundtrip: "decode_utf8_sig (encode_utf8_sig_ignore s) = encode_utf8_ignore s"
  by (simp add: encode_utf8_sig_ignore_def)

lemma clean_content_steps:
  "clean_content x =
     py_strip (encode_utf8_ignore (encode_utf8_ignore (py_strip (filter (\<lambda>c. \<not> invisible c)
       (py_strip (strip_comments (filter (\<lambda>c. c \<noteq> 96) (unfence x))))))))"
  by (simp add: clean_content_def utf8_sig_roundtrip)

lemma clean_content_set_backtick: "96 \<notin> set (clean_content x)"
proof -
  have "set (clean_content x) \<subseteq> set (filter (\<lambda>c. c \<noteq> 96) (unfence x))"
    unfolding clean_content_steps encode_utf8_ignore_def
    using py_strip_set strip_comments_set
    by (meson filter_is_subset subset_trans)
  then show ?thesis by auto
qed

lemma clean_content_set_invisible: "c \<in> set (clean_content x) \<Longrightarrow> \<not> invisible c"
proof -
  have "set (clean_content x) \<subseteq> set (py_strip (filter (\<lambda>c. \<not> invisible c)
       (py_strip (strip_comments (filter (\<lambda>c. c \<noteq> 96) (unfence x))))))"
    unfolding clean_content_steps encode_utf8_ignore_def
    using py_strip_set by (meson filter_is_subset subset_trans)
  also have "\<dots> \<subseteq> set (filter (\<lambda>c. \<not> invisible c)
       (py_strip (strip_comments (filter (\<lambda>c. c \<noteq> 96) (unfence x)))))"
    by (rule py_strip_set)
  finally show "c \<in> set (clean_content x) \<Longrightarrow> \<not> invisible c" by auto
qed

lemma clean_content_set_surrogate: "c \<in> set (clean_content x) \<Longrightarrow> \<not> surrogate c"
proof -
  have "set (clean_content x) \<subseteq> set (encode_utf8_ignore (encode_utf8_ignore (py_strip (filter (\<lambda>c. \<not> invisible c)
       (py_strip (strip_comments (filter (\<lambda>c. c \<noteq> 96) (unfence x))))))))"
    unfolding clean_content_steps by (rule py_strip_set)
  then show "c \<in> set (clean_content x) \<Longrightarrow> \<not> surrogate c"
    by (auto simp: encode_utf8_ignore_def)
qed

lemma clean_content_stripped: "py_strip (clean_content x) = clean_content x"
  unfolding clean_content_steps by (rule py_strip_idem)

lemma clean_content_again:
  "clean_content (clean_content x) =
     py_strip (encode_utf8_ignore (encode_utf8_ignore (py_strip (filter (\<lambda>c. \<not> invisible c)
       (py_strip (strip_comments (clean_content x)))))))"
proof -
  have 1: "unfence (clean_content x) = clean_content x"
    by (rule unfence_no_backtick) (rule clean_content_set_backtick)
  have 2: "filter (\<lambda>c. c \<noteq> 96) (clean_content x) = clean_content x"
    using clean_content_set_backtick [of x] by (simp add: filter_id_conv) blast
  show ?thesis by (subst clean_content_steps) (simp only: 1 2)
qed

lemma strip_comments_no_opener:
  "\<not> sublist (str ''/**'') s \<Longrightarrow> strip_comments s = s"
proof (induction s)
  case Nil
  show ?case by simp
next
  case (Cons c cs)
  from Cons.prems have p: "\<not> prefix (str ''/**'') (c # cs)" and r: "\<not> sublist (str ''/**'') cs"
    by (auto simp: sublist_Cons_right)
  from Cons.IH [OF r] p show ?case by simp
qed

text \<open>
  Claim C5, amended. Cleaning a cleaned text again changes nothing exactly when the
  cleaned text holds no block comment that the comment step still removes; this is so
  whenever the cleaned text does not contain \<open>/**\<close>.
\<close>

theorem clean_content_idempotent_iff:
  "(clean_content (clean_content x) = clean_content x \<longleftrightarrow>
      strip_comments (clean_content x) = clean_content x) \<and>
   (\<not> sublist (str ''/**'') (clean_content x) \<longrightarrow>
      clean_content (clean_content x) = clean_content x)"
proof -
  have iff: "clean_content (clean_content x) = clean_content x \<longleftrightarrow>
             strip_comments (clean_content x) = clean_content x"
  proof
    assume fixed: "strip_comments (clean_content x) = clean_content x"
    have 3: "filter (\<lambda>c. \<not> invisible c) (clean_content x) = clean_content x"
      using clean_content_set_invisible [of _ x] by (simp add: filter_id_conv)
    have 4: "encode_utf8_ignore (clean_content x) = clean_content x"
      using clean_content_set_surrogate [of _ x] by (simp add: encode_utf8_ignore_def filter_id_conv)
    show "clean_content (clean_content x) = clean_content x"
      by (subst clean_content_again) (simp only: fixed clean_content_stripped 3 4)
  next
    assume idem: "clean_content (clean_content x) = clean_content x"
    show "strip_comments (clean_content x) = clean_content x"
    proof (rule ccontr)
      assume "strip_comments (clean_content x) \<noteq> clean_content x"
      then have lt: "length (strip_comments (clean_content x)) < length (clean_content x)"
        by (rule strip_comments_shorter)
      have "length (clean_content (clean_content x)) \<le> length (strip_comments (clean_content x))"
        unfolding clean_content_again encode_utf8_ignore_def
        by (meson py_strip_length length_filter_le le_trans)
      with lt idem show False by simp
    qed
  qed
  with strip_comments_no_opener [of "clean_content x"] show ?thesis by blast
qed

lemmas clean_defs = clean_content_def fence_match_def str_def fence_def py_strip_def
  py_isspace_def encode_utf8_sig_ignore_def encode_utf8_ignore_def surrogate_def invisible_def

text \<open>
  Claim C5, as stated, fails: removing the comment in the middle of this text joins the
  characters around it into a new comment, which a second pass removes.
\<close>

theorem clean_content_not_idempotent:
  "clean_content (clean_content (str ''/*/** a */* b */'')) \<noteq> clean_content (str ''/*/** a */* b */'')"
  by (simp add: clean_defs)

theorem clean_content_idempotent_iff_witness:
  "\<not> sublist (str ''/**'') (clean_content (str ''/** a */ x = 1'')) \<and>
   strip_comments (clean_content (str ''/** a */ x = 1'')) = clean_content (str ''/** a */ x = 1'') \<and>
   clean_content (clean_content (str ''/** a */ x = 1'')) = clean_content (str ''/** a */ x = 1'')"
proof -
  have v: "clean_content (str ''/** a */ x = 1'') = str ''x = 1''"
    by (simp add: clean_defs)
  have n: "\<not> sublist (str ''/**'') (clean_content (str ''/** a */ x = 1''))"
    unfolding v by (simp add: str_def sublist_Cons_right)
  from n clean_content_idempotent_iff [of "str ''/** a */ x = 1''"]
  show ?thesis by blast
qed



section \<open>Properties of the module writer and of the task descriptions\<close>














lemmas writer_defs = write_module_def aborted_write_module_def module_ops_def generated_def
  output_folder_def path_join_def str_lower_def makedirs_def terraform_tf_def
  body_st_def outputs_stacct_def variables_name_def empty_fs_def earlier_fs_def




lemma empty_fs_free:
  "files empty_fs p = None" "p \<notin> dirs empty_fs"
  by (simp_all add: empty_fs_def)





lemma example_texts_not_empty:
  "variables_name \<noteq> []" "body_st \<noteq> []" "outputs_stacct \<noteq> []"
  by (simp_all add: variables_name_def body_st_def outputs_stacct_def str_def)




lemma write_file_ops_no_rename: "filter is_rename (write_file_ops folder p) = []"
  by (cases p) simp

lemma write_file_ops_paths:
  "set (map op_path (write_file_ops folder p)) \<subseteq> {path_join folder (fst p)}"
  by (cases p) auto

text \<open>
  Claim C9, amended. The writer never renames: every call creates or writes the module
  directory or a file under its final name in it. A file is first opened, which empties
  it, and then written, so a run stopped between the two leaves an empty file under the
  final name.
\<close>

theorem files_written_in_place:
  "filter is_rename (module_ops resource_type gen) = [] \<and>
   set (map op_path (module_ops resource_type gen)) \<subseteq>
     insert (output_folder resource_type)
       (set (map (\<lambda>p. path_join (output_folder resource_type) (fst p)) gen)) \<and>
   (content \<noteq> [] \<longrightarrow> path_join folder filename \<notin> dirs fs \<longrightarrow>
      run_ops (take 1 (write_file_ops folder (filename, content))) fs =
        (None, fs\<lparr>files := (files fs)(path_join folder filename \<mapsto> [])\<rparr>))"
proof -
  have 1: "filter is_rename (module_ops resource_type gen) = []"
    by (simp add: module_ops_def filter_concat write_file_ops_no_rename comp_def)
  have 2: "set (map op_path (module_ops resource_type gen)) \<subseteq>
     insert (output_folder resource_type)
       (set (map (\<lambda>p. path_join (output_folder resource_type) (fst p)) gen))"
    using write_file_ops_paths [of "output_folder resource_type"]
    by (auto simp: module_ops_def)
  have 3: "content \<noteq> [] \<longrightarrow> path_join folder filename \<notin> dirs fs \<longrightarrow>
      run_ops (take 1 (write_file_ops folder (filename, content))) fs =
        (None, fs\<lparr>files := (files fs)(path_join folder filename \<mapsto> [])\<rparr>)"
    by simp
  from 1 2 3 show ?thesis by blast
qed

theorem files_written_in_place_witness:
  "variables_name \<noteq> [] \<and>
   path_join (str ''modules/azurerm_storage_account'') (str ''variables.tf'') \<notin> dirs empty_fs \<and>
   filter is_rename (module_ops (str ''azurerm_storage_account'')
      (generated (str ''hashicorp'') (str ''azurerm'') (str ''4.0.0'')
         (Some variables_name) (Some body_st) (Some outputs_stacct))) = [] \<and>
   run_ops (take 1 (write_file_ops (str ''modules/azurerm_storage_account'')
                      (str ''variables.tf'', variables_name))) empty_fs =
     (None, empty_fs\<lparr>files := (files empty_fs)
        (path_join (str ''modules/azurerm_storage_account'') (str ''variables.tf'') \<mapsto> [])\<rparr>)"
  using files_written_in_place
          [of "str ''azurerm_storage_account''"
              "generated (str ''hashicorp'') (str ''azurerm'') (str ''4.0.0'')
                 (Some variables_name) (Some body_st) (Some outputs_stacct)"
              variables_name "str ''modules/azurerm_storage_account''" "str ''variables.tf''"
              empty_fs]
        example_texts_not_empty(1) empty_fs_free(2)
  by blast

text \<open>
  Claim C9, as stated, fails: a run stopped after two calls leaves an empty
  \<open>variables.tf\<close> under its final name, and a run stopped after three leaves a module
  with \<open>variables.tf\<close> and no \<open>main.tf\<close>.
\<close>

theorem aborted_run_leaves_partial_module:
  "files (snd (aborted_write_module 2 (str ''azurerm_storage_account'')
          (generated (str ''hashicorp'') (str ''azurerm'') (str ''4.0.0'')
             (Some variables_name) (Some body_st) (Some outputs_stacct)) empty_fs))
     (str ''modules/azurerm_storage_account/variables.tf'') = Some [] \<and>
   clean_content (raw_or_empty (Some variables_name)) \<noteq> [] \<and>
   files (snd (aborted_write_module 3 (str ''azurerm_storage_account'')
          (generated (str ''hashicorp'') (str ''azurerm'') (str ''4.0.0'')
             (Some variables_name) (Some body_st) (Some outputs_stacct)) empty_fs))
     (str ''modules/azurerm_storage_account/variables.tf'') = Some variables_name \<and>
   files (snd (aborted_write_module 3 (str ''azurerm_storage_account'')
          (generated (str ''hashicorp'') (str ''azurerm'') (str ''4.0.0'')
             (Some variables_name) (Some body_st) (Some outputs_stacct)) empty_fs))
     (str ''modules/azurerm_storage_account/main.tf'') = None"
  by (simp add: writer_defs clean_defs)

text \<open>
  Claim C2, amended. The schema summary is computed once and is, unchanged, the start of
  the descriptions of the inputs task and of the body task. The description of the
  outputs task is built from the resource type and fixed text only.
\<close>

theorem summary_in_inputs_and_body_only:
  "task_descriptions resource_type arguments block_tree markdown_content =
     (schema_summary resource_type arguments block_tree @ variables_head @ markdown_content @
        variables_rules,
      schema_summary resource_type arguments block_tree @ main_head @ resource_type @ main_rules,
      outputs_head @ resource_type @ outputs_rules)"
  by (simp add: task_descriptions_def variables_description_def main_description_def
        outputs_description_def Let_def)

text \<open>
  Claim C2, as stated, fails: the description of the outputs task does not contain the
  schema summary.
\<close>

theorem outputs_payload_lacks_summary:
  "\<not> sublist
       (schema_summary (str ''azurerm_storage_account'')
          [Attribute (str ''name'') (JBool True)]
          [SummaryBlock (str ''identity'') 0 [Attribute (str ''type'') (JBool False)] []])
       (snd (snd (task_descriptions (str ''azurerm_storage_account'')
          [Attribute (str ''name'') (JBool True)]
          [SummaryBlock (str ''identity'') 0 [Attribute (str ''type'') (JBool False)] []]
          (str ''# azurerm_storage_account''))))"
proof
  assume a: "sublist
       (schema_summary (str ''azurerm_storage_account'')
          [Attribute (str ''name'') (JBool True)]
          [SummaryBlock (str ''identity'') 0 [Attribute (str ''type'') (JBool False)] []])
       (snd (snd (task_descriptions (str ''azurerm_storage_account'')
          [Attribute (str ''name'') (JBool True)]
          [SummaryBlock (str ''identity'') 0 [Attribute (str ''type'') (JBool False)] []]
          (str ''# azurerm_storage_account''))))"
  have o: "snd (snd (task_descriptions (str ''azurerm_storage_account'')
          [Attribute (str ''name'') (JBool True)]
          [SummaryBlock (str ''identity'') 0 [Attribute (str ''type'') (JBool False)] []]
          (str ''# azurerm_storage_account''))) = outputs_description (str ''azurerm_storage_account'')"
    by (simp add: task_descriptions_def Let_def)
  obtain rest where s: "schema_summary (str ''azurerm_storage_account'')
          [Attribute (str ''name'') (JBool True)]
          [SummaryBlock (str ''identity'') 0 [Attribute (str ''type'') (JBool False)] []]
        = str ''You a'' @ rest"
    by (simp add: schema_summary_def str_def)
  from a obtain ps ss where
    "outputs_description (str ''azurerm_storage_account'') = ps @ (str ''You a'' @ rest) @ ss"
    unfolding o s sublist_def by blast
  then have "outputs_description (str ''azurerm_storage_account'') = ps @ str ''You a'' @ (rest @ ss)"
    by simp
  then have "sublist (str ''You a'') (outputs_description (str ''azurerm_storage_account''))"
    unfolding sublist_def by blast
  then show False
    by (simp add: outputs_description_def outputs_head_def outputs_rules_def str_def
          sublist_Cons_right)
qed

end
